theory Spec2Isabelle
  imports Complex_Main
begin

section \<open>The autogtp production client (Production.cpp)\<close>

text \<open>
  A shallow embedding of \<^verbatim>\<open>src/autogtp/Production.cpp\<close>: the model store
  (\<^verbatim>\<open>updateNetwork\<close>, \<^verbatim>\<open>fetchBestNetworkHash\<close>, \<^verbatim>\<open>networkExists\<close>,
  \<^verbatim>\<open>fetchBestNetwork\<close>), the upload (\<^verbatim>\<open>uploadData\<close>), the timing report
  (\<^verbatim>\<open>printTimingInfo\<close>) and the worker loop (\<^verbatim>\<open>ProductionWorker::run\<close>).

  The program talks to three things outside itself: the local directory, the processes it
  starts (curl, gzip, gunzip, the engine) and its standard output. The directory is a map
  from file names to files, with the set of directories that exist, and is part of the
  state; what a started process answers is an
  argument of the function that starts it; what is printed or started is appended to a
  console trace in the state. A call of \<^verbatim>\<open>exit(EXIT_FAILURE)\<close>, a thrown
  \<^verbatim>\<open>NetworkException\<close> and undefined behaviour are results, not effects. The non-Windows branch of every
  \<^verbatim>\<open>#ifdef WIN32\<close> is the one modelled.
\<close>

subsection \<open>Constants\<close>

definition RETRY_DELAY_MIN_SEC :: int where
  "RETRY_DELAY_MIN_SEC = 30"

definition RETRY_DELAY_MAX_SEC :: int where
  "RETRY_DELAY_MAX_SEC = 60 * 60"

definition MAX_RETRIES :: nat where
  "MAX_RETRIES = 4 * 24"

subsection \<open>Files, console, results\<close>

text \<open>
  A file carries what the code asks of it: its bytes, whether \<^verbatim>\<open>QFile::open\<close>
  succeeds, whether \<^verbatim>\<open>QCryptographicHash::addData\<close> can read it to the end, and whether
  \<^verbatim>\<open>remove\<close> succeeds. Each of the three is a branch condition of \<^verbatim>\<open>networkExists\<close>.
\<close>

record qfile =
  content :: string
  openable :: bool
  readable :: bool
  removable :: bool

type_synonym filesystem = "string \<rightharpoonup> qfile"

datatype network_exception = CurlExitCode int | UnexpectedOutput

datatype event =
    Say string
  | SayNum string int
  | SayWhat network_exception
  | Exec string
  | Submit string int string string
  | Sleep int

text \<open>
  How a function ends: it returns, it throws \<^verbatim>\<open>NetworkException\<close>, it ends the process
  with \<^verbatim>\<open>exit(EXIT_FAILURE)\<close>, or it executes an operation for which C++ defines no
  behaviour. After the last the program is not followed any further.
\<close>

datatype 'a outcome = Return 'a | Throw network_exception | Exit | Undefined

text \<open>
  The library and tool functions the code relies on and that are not part of the
  repository: the SHA-256 hex digest of a byte string, \<^verbatim>\<open>QString::toInt\<close>, what
  gunzip makes of a compressed byte string and what gzip makes of a byte string
  (\<open>None\<close> when the tool fails).
\<close>

record ext =
  sha256_hex :: "string \<Rightarrow> string"
  toInt :: "string \<Rightarrow> int"
  gunzip_bytes :: "string \<Rightarrow> string option"
  gzip_bytes :: "string \<Rightarrow> string option"

record production =
  m_network :: string
  m_version :: int
  m_keepPath :: string
  m_debugPath :: string
  m_gamesPlayed :: int
  m_movesMade :: int
  disk :: filesystem
  folders :: "string set"
  console :: "event list"

definition emit_ev :: "event \<Rightarrow> production \<Rightarrow> production" where
  "emit_ev e s = s\<lparr>console := console s @ [e]\<rparr>"

text \<open>\<^verbatim>\<open>QFile::remove\<close> and \<^verbatim>\<open>QDir::remove\<close>: the result and the directory afterwards.\<close>

definition remove_file :: "filesystem \<Rightarrow> string \<Rightarrow> bool \<times> filesystem" where
  "remove_file fs name =
     (case fs name of
        None \<Rightarrow> (False, fs)
      | Some f \<Rightarrow> if removable f then (True, fs(name := None)) else (False, fs))"

text \<open>\<^verbatim>\<open>QString::split("\n")\<close>, empty parts kept: one more part than newlines.\<close>

fun split_nl :: "string \<Rightarrow> string list" where
  "split_nl [] = [[]]"
| "split_nl (c # cs) =
     (if c = CHR 0x0A then [] # split_nl cs
      else (case split_nl cs of [] \<Rightarrow> [[c]] | p # ps \<Rightarrow> (c # p) # ps))"

text \<open>\<^verbatim>\<open>QString::chop(n)\<close> removes the last n characters (all of them when there are fewer).\<close>

definition chop :: "nat \<Rightarrow> string \<Rightarrow> string" where
  "chop n s = take (length s - n) s"

subsection \<open>The retry delay\<close>

text \<open>
  \<^verbatim>\<open>std::min<int>(RETRY_DELAY_MIN_SEC * std::pow(1.5, retries), RETRY_DELAY_MAX_SEC)\<close>.
  The product is a double; \<^verbatim>\<open>std::min<int>\<close> takes its arguments as \<^verbatim>\<open>int\<close>, so the
  product is converted to \<^verbatim>\<open>int\<close> first (truncation towards zero) and the cap is
  applied to the converted value. The conversion of a double whose truncation does not
  fit an \<^verbatim>\<open>int\<close> is undefined in C++: there the model has no delay (\<open>None\<close>).

  The product is modelled as a rational. For \<open>retries \<le> 11\<close> the value
  \<open>30 * 3^retries / 2^retries\<close> has a numerator below \<open>2^23\<close> and a power of two as
  denominator, so it is a double and a \<^verbatim>\<open>pow\<close> that is accurate to less than one unit
  in the last place returns it exactly; from \<open>retries = 12\<close> on the product is above the
  cap by more than eight percent, and up to \<open>retries = 44\<close> it is below \<open>2^31\<close> by more
  than twenty percent, so rounding cannot change the result.
\<close>

definition pow_product :: "nat \<Rightarrow> rat" where
  "pow_product retries = of_int RETRY_DELAY_MIN_SEC * (3 / 2) ^ retries"

definition double_to_int :: "rat \<Rightarrow> int option" where
  "double_to_int x =
     (let t = (if 0 \<le> x then \<lfloor>x\<rfloor> else \<lceil>x\<rceil>)
      in if - (2 ^ 31) \<le> t \<and> t < 2 ^ 31 then Some t else None)"

definition retry_delay :: "nat \<Rightarrow> int option" where
  "retry_delay retries =
     map_option (\<lambda>d. min d RETRY_DELAY_MAX_SEC) (double_to_int (pow_product retries))"

subsection \<open>Model store\<close>

definition hash_cmdline :: string where
  "hash_cmdline = ''curl http://zero.sjeng.org/best-network-hash''"

definition download_cmdline :: string where
  "download_cmdline =
     ''curl -s -O -J -w %{filename_effective} http://zero.sjeng.org/best-network''"

text \<open>What a finished curl process leaves: its exit code, its standard output, and for
  the download the file it saved (its name and the file), if it saved one. Curl does not
  overwrite a file that is there, which is why the code removes the old download first.\<close>

record curl_reply =
  exit_code :: int
  std_out :: string
  saved :: "(string \<times> qfile) option"

definition fetchBestNetworkHash ::
  "ext \<Rightarrow> curl_reply \<Rightarrow> production \<Rightarrow> bool outcome \<times> production" where
  "fetchBestNetworkHash X curl s0 =
     (let s1 = emit_ev (Exec hash_cmdline) s0;
          outlst = split_nl (std_out curl)
      in if exit_code curl \<noteq> 0 then (Throw (CurlExitCode (exit_code curl)), s1)
         else if length outlst \<noteq> 2 then
           (Throw UnexpectedOutput,
            emit_ev (Say (''Unexpected output from server: '' @ std_out curl)) s1)
         else
           let outhash = outlst ! 0;
               s2 = emit_ev (Say (''Best network hash: '' @ outhash)) s1;
               client_version = outlst ! 1;
               server_expected = toInt X client_version;
               s3 = emit_ev (Say (''Required client version: '' @ client_version)) s2
           in if server_expected > m_version s3 then
                (Exit, emit_ev (SayNum ''Server requires client version'' server_expected) s3)
              else
                let s4 = emit_ev (Say '' (OK)'') s3
                in if outhash = m_network s4 then (Return True, s4)
                   else (Return False, s4\<lparr>m_network := outhash\<rparr>))"

definition networkExists :: "ext \<Rightarrow> production \<Rightarrow> bool outcome \<times> production" where
  "networkExists X s =
     (case disk s (m_network s) of
        None \<Rightarrow> (Return False, s)
      | Some f \<Rightarrow>
          if openable f then
            if \<not> readable f then (Exit, emit_ev (Say ''Reading network file failed.'') s)
            else if sha256_hex X (content f) = m_network s then (Return True, s)
            else
              let s1 = emit_ev (Say ''Downloaded network hash doesn't match.'') s
              in (Return False, s1\<lparr>disk := snd (remove_file (disk s1) (m_network s1))\<rparr>)
          else
            let s1 = emit_ev (Say ''Unable to open network file for reading.'') s;
                (ok, fs) = remove_file (disk s1) (m_network s1)
            in if ok then (Return False, s1\<lparr>disk := fs\<rparr>)
               else (Exit,
                     emit_ev (Say ''Unable to delete the network file. Check permissions.'')
                       (s1\<lparr>disk := fs\<rparr>)))"

text \<open>
  \<^verbatim>\<open>gunzip -q name\<close>: a file whose name ends in \<^verbatim>\<open>.gz\<close> and whose bytes inflate is
  replaced by the inflated file under the name without the suffix, unless that name is
  taken; otherwise the directory is left as it is.
\<close>

definition gunzip :: "ext \<Rightarrow> string \<Rightarrow> filesystem \<Rightarrow> filesystem" where
  "gunzip X name fs =
     (case fs name of
        None \<Rightarrow> fs
      | Some f \<Rightarrow>
          (case gunzip_bytes X (content f) of
             None \<Rightarrow> fs
           | Some bytes \<Rightarrow>
               if drop (length name - 3) name = ''.gz'' \<and> fs (chop 3 name) = None
               then (fs(name := None))(chop 3 name \<mapsto> f\<lparr>content := bytes\<rparr>)
               else fs))"

definition fetchBestNetwork ::
  "ext \<Rightarrow> curl_reply \<Rightarrow> production \<Rightarrow> unit outcome \<times> production" where
  "fetchBestNetwork X curl s0 =
     (case networkExists X s0 of
        (Exit, s1) \<Rightarrow> (Exit, s1)
      | (Throw ex, s1) \<Rightarrow> (Throw ex, s1)
      | (Undefined, s1) \<Rightarrow> (Undefined, s1)
      | (Return True, s1) \<Rightarrow> (Return (), emit_ev (Say ''Already downloaded network.'') s1)
      | (Return False, s1) \<Rightarrow>
          let gz = m_network s1 @ ''.gz'';
              s2 = (if disk s1 gz \<noteq> None then s1\<lparr>disk := snd (remove_file (disk s1) gz)\<rparr>
                    else s1);
              s3 = emit_ev (Exec download_cmdline) s2;
              s4 = (case saved curl of
                      None \<Rightarrow> s3
                    | Some (name, f) \<Rightarrow>
                        if disk s3 name = None then s3\<lparr>disk := (disk s3)(name \<mapsto> f)\<rparr>
                        else s3)
          in if exit_code curl \<noteq> 0 then (Throw (CurlExitCode (exit_code curl)), s4)
             else
               let outfile = hd (split_nl (std_out curl));
                   s5 = emit_ev (Say (''Curl filename: '' @ outfile)) s4;
                   s6 = emit_ev (Exec (''gunzip -q '' @ outfile)) s5;
                   s7 = s6\<lparr>disk := gunzip X outfile (disk s6)\<rparr>;
                   net = chop 3 outfile;
                   s8 = emit_ev (Say (''Net filename: '' @ net)) s7;
                   s9 = s8\<lparr>m_network := net\<rparr>
               in (case networkExists X s9 of
                     (Return True, s10) \<Rightarrow> (Return (), s10)
                   | (_, s10) \<Rightarrow> (Exit, s10)))"

text \<open>The body of the \<^verbatim>\<open>try\<close> block: the hash query, then the download, each with the
  answer of its own curl process.\<close>

record attempt_env =
  hash_reply :: curl_reply
  download_reply :: curl_reply

definition attempt ::
  "ext \<Rightarrow> attempt_env \<Rightarrow> production \<Rightarrow> bool outcome \<times> production" where
  "attempt X e s0 =
     (case fetchBestNetworkHash X (hash_reply e) s0 of
        (Return new_network, s1) \<Rightarrow>
          (case fetchBestNetwork X (download_reply e) s1 of
             (Return u, s2) \<Rightarrow> (Return new_network, s2)
           | (Throw ex, s2) \<Rightarrow> (Throw ex, s2)
           | (Exit, s2) \<Rightarrow> (Exit, s2)
           | (Undefined, s2) \<Rightarrow> (Undefined, s2))
      | (Throw ex, s1) \<Rightarrow> (Throw ex, s1)
      | (Exit, s1) \<Rightarrow> (Exit, s1)
      | (Undefined, s1) \<Rightarrow> (Undefined, s1))"

text \<open>
  The \<^verbatim>\<open>catch\<close> block: two lines of output, the delay, a line that prints it, the
  sleep. Where the delay has no defined value (the conversion to \<^verbatim>\<open>int\<close> overflows)
  the block ends in undefined behaviour: the program as compiled for x86-64 gets
  \<^verbatim>\<open>INT_MIN\<close> from the conversion and calls \<^verbatim>\<open>QThread::sleep\<close> with it as an
  \<^verbatim>\<open>unsigned long\<close>, 18446744071562067968 seconds, so the loop is not taken further.
\<close>

definition on_exception ::
  "network_exception \<Rightarrow> nat \<Rightarrow> production \<Rightarrow> unit outcome \<times> production" where
  "on_exception ex retries s =
     (let s1 = emit_ev (SayWhat ex) (emit_ev (Say ''Network connection to server failed.'') s)
      in (case retry_delay retries of
            None \<Rightarrow> (Undefined, s1)
          | Some d \<Rightarrow> (Return (), emit_ev (Sleep d) (emit_ev (SayNum ''Retrying in'' d) s1))))"

text \<open>The \<^verbatim>\<open>for\<close> loop of \<^verbatim>\<open>updateNetwork\<close> from a given value of \<open>retries\<close>; the
  environment gives, for each value of the counter, what the server answers then.\<close>

function retry_loop ::
  "ext \<Rightarrow> (nat \<Rightarrow> attempt_env) \<Rightarrow> nat \<Rightarrow> production \<Rightarrow> bool outcome \<times> production" where
  "retry_loop X env retries s =
     (if retries < MAX_RETRIES then
        (case attempt X (env retries) s of
           (Throw ex, s1) \<Rightarrow>
             (case on_exception ex retries s1 of
                (Return u, s2) \<Rightarrow> retry_loop X env (retries + 1) s2
              | (Throw ex2, s2) \<Rightarrow> (Throw ex2, s2)
              | (Exit, s2) \<Rightarrow> (Exit, s2)
              | (Undefined, s2) \<Rightarrow> (Undefined, s2))
         | (r, s1) \<Rightarrow> (r, s1))
      else (Exit, emit_ev (Say ''Maximum number of retries exceeded. Giving up.'') s))"
  by pat_completeness auto
termination
  by (relation "measure (\<lambda>(X, env, retries, s). MAX_RETRIES - retries)") auto

declare retry_loop.simps [simp del]

definition updateNetwork ::
  "ext \<Rightarrow> (nat \<Rightarrow> attempt_env) \<Rightarrow> production \<Rightarrow> bool outcome \<times> production" where
  "updateNetwork X env s = retry_loop X env 0 s"

text \<open>Two parts of \<^verbatim>\<open>fetchBestNetwork\<close> by name, for stating what holds between them:
  the state when curl has finished, and the state when the download has been unpacked and
  \<^verbatim>\<open>m_network\<close> set to the name of the unpacked file.\<close>

definition start_download :: "curl_reply \<Rightarrow> production \<Rightarrow> production" where
  "start_download curl s1 =
     (let gz = m_network s1 @ ''.gz'';
          s2 = (if disk s1 gz \<noteq> None then s1\<lparr>disk := snd (remove_file (disk s1) gz)\<rparr>
                else s1);
          s3 = emit_ev (Exec download_cmdline) s2
      in (case saved curl of
            None \<Rightarrow> s3
          | Some (name, f) \<Rightarrow>
              if disk s3 name = None then s3\<lparr>disk := (disk s3)(name \<mapsto> f)\<rparr> else s3))"

definition unpack_download :: "ext \<Rightarrow> curl_reply \<Rightarrow> production \<Rightarrow> production" where
  "unpack_download X curl s4 =
     (let outfile = hd (split_nl (std_out curl));
          s5 = emit_ev (Say (''Curl filename: '' @ outfile)) s4;
          s6 = emit_ev (Exec (''gunzip -q '' @ outfile)) s5;
          s7 = s6\<lparr>disk := gunzip X outfile (disk s6)\<rparr>;
          net = chop 3 outfile;
          s8 = emit_ev (Say (''Net filename: '' @ net)) s7
      in s8\<lparr>m_network := net\<rparr>)"

definition after_download :: "ext \<Rightarrow> curl_reply \<Rightarrow> production \<Rightarrow> production" where
  "after_download X curl s1 = unpack_download X curl (start_download curl s1)"

text \<open>The delays slept so far, read off the console.\<close>

definition sleeps :: "event list \<Rightarrow> int list" where
  "sleeps evs = concat (map (\<lambda>e. case e of Sleep d \<Rightarrow> [d] | _ \<Rightarrow> []) evs)"



subsection \<open>Timing report\<close>

text \<open>
  Integer division as C++ has it: towards zero, and undefined for a zero divisor
  (\<open>None\<close>). The counters and the clock are unbounded integers here; the move counter,
  which the workers increment while the report is made, is read once.
\<close>

definition c_div :: "int \<Rightarrow> int \<Rightarrow> int option" where
  "c_div a b = (if b = 0 then None else Some (sgn a * sgn b * (\<bar>a\<bar> div \<bar>b\<bar>)))"

text \<open>
  \<^verbatim>\<open>printTimingInfo\<close> with the clock reading as an argument: \<open>total_time_s\<close> is the
  number of whole seconds since \<^verbatim>\<open>m_start\<close>, \<open>duration\<close> the value of
  \<^verbatim>\<open>(int) duration\<close>. The result is \<open>None\<close> when a division by zero is executed.
\<close>

definition printTimingInfo :: "int \<Rightarrow> int \<Rightarrow> production \<Rightarrow> production option" where
  "printTimingInfo total_time_s duration s =
     (if m_movesMade s = 0 \<or> m_gamesPlayed s = 0 then Some s
      else
        (case (c_div total_time_s 60,
               c_div total_time_s (m_gamesPlayed s),
               c_div (total_time_s * 1000) (m_movesMade s)) of
           (Some total_time_min, Some per_game, Some per_move) \<Rightarrow>
             Some (emit_ev (SayNum '' seconds.'' duration)
                    (emit_ev (SayNum '' ms/move, last game took'' per_move)
                      (emit_ev (SayNum '' seconds/game,'' per_game)
                        (emit_ev (SayNum '' minutes ='' total_time_min)
                          (emit_ev (SayNum '' game(s) played in'' (m_gamesPlayed s)) s)))))
         | _ \<Rightarrow> None))"

subsection \<open>Upload\<close>

text \<open>
  \<^verbatim>\<open>QFile::copy\<close> copies a file that is there to a name that is free in a directory
  that exists, and does nothing otherwise (its result is not looked at).
  \<^verbatim>\<open>gzip name\<close> replaces a file by its compressed form under the name with
  \<^verbatim>\<open>.gz\<close> added, unless that name is taken or the tool fails.
\<close>

definition copy_file ::
  "string set \<Rightarrow> string \<Rightarrow> string \<Rightarrow> string \<Rightarrow> filesystem \<Rightarrow> filesystem" where
  "copy_file dirs src dir name fs =
     (case fs src of
        None \<Rightarrow> fs
      | Some f \<Rightarrow>
          if dir \<in> dirs \<and> fs (dir @ ''/'' @ name) = None
          then fs(dir @ ''/'' @ name \<mapsto> f)
          else fs)"

definition gzip :: "ext \<Rightarrow> string \<Rightarrow> filesystem \<Rightarrow> filesystem" where
  "gzip X name fs =
     (case fs name of
        None \<Rightarrow> fs
      | Some f \<Rightarrow>
          (case gzip_bytes X (content f) of
             None \<Rightarrow> fs
           | Some bytes \<Rightarrow>
               if fs (name @ ''.gz'') = None
               then (fs(name := None))(name @ ''.gz'' \<mapsto> f\<lparr>content := bytes\<rparr>)
               else fs))"

text \<open>
  \<^verbatim>\<open>QDir::entryInfoList\<close> with the single name filter \<^verbatim>\<open>file + ".sgf"\<close>: the base
  names the engine hands out hold no wildcard, so the filter matches the file of that
  name or nothing.
\<close>

definition entryInfoList :: "filesystem \<Rightarrow> string \<Rightarrow> string list" where
  "entryInfoList fs pattern = (if fs pattern \<noteq> None then [pattern] else [])"

text \<open>The body of the \<^verbatim>\<open>for\<close> loop of \<^verbatim>\<open>uploadData\<close> for one directory entry. The curl
  command line with its four \<^verbatim>\<open>-F\<close> fields is the event \<open>Submit\<close>.\<close>

definition upload_entry :: "ext \<Rightarrow> curl_reply \<Rightarrow> string \<Rightarrow> production \<Rightarrow> production" where
  "upload_entry X curl sgf_file s0 =
     (let base = chop 4 sgf_file;
          data_file = base @ ''.txt.0.gz'';
          debug_data_file = base @ ''.txt.debug.0.gz'';
          s1 = (if m_keepPath s0 \<noteq> [] then
                  s0\<lparr>disk := copy_file (folders s0) sgf_file (m_keepPath s0) sgf_file (disk s0)\<rparr>
                else s0);
          s2 = (if m_debugPath s1 \<noteq> [] then
                  s1\<lparr>disk :=
                       copy_file (folders s1) debug_data_file (m_debugPath s1) debug_data_file
                         (copy_file (folders s1) data_file (m_debugPath s1) data_file
                            (disk s1))\<rparr>
                else s1);
          s3 = emit_ev (Exec (''gzip '' @ sgf_file)) s2;
          s4 = s3\<lparr>disk := gzip X sgf_file (disk s3)\<rparr>;
          sgf_gz = sgf_file @ ''.gz'';
          s5 = emit_ev (Submit (m_network s4) (m_version s4) sgf_gz data_file) s4;
          s6 = (if exit_code curl \<noteq> 0 then
                  emit_ev (Say ''Continuing...'')
                    (emit_ev (SayNum ''Upload failed. Curl Exit code: '' (exit_code curl)) s5)
                else s5);
          s7 = emit_ev (Say (std_out curl)) s6
      in s7\<lparr>disk :=
              snd (remove_file
                    (snd (remove_file (snd (remove_file (disk s7) sgf_gz)) data_file))
                    debug_data_file)\<rparr>)"

fun upload_loop ::
  "ext \<Rightarrow> (nat \<Rightarrow> curl_reply) \<Rightarrow> nat \<Rightarrow> string list \<Rightarrow> production \<Rightarrow> production" where
  "upload_loop X env i [] s = s"
| "upload_loop X env i (name # names) s =
     upload_loop X env (i + 1) names (upload_entry X (env i) name s)"

definition uploadData ::
  "ext \<Rightarrow> (nat \<Rightarrow> curl_reply) \<Rightarrow> string \<Rightarrow> production \<Rightarrow> unit outcome \<times> production" where
  "uploadData X env file s =
     (Return (), upload_loop X env 0 (entryInfoList (disk s) (file @ ''.sgf'')) s)"

text \<open>A name is done with when no file has it, or the file that has it cannot be
  removed.\<close>

definition gone_or_stuck :: "filesystem \<Rightarrow> string \<Rightarrow> bool" where
  "gone_or_stuck fs name = (case fs name of None \<Rightarrow> True | Some f \<Rightarrow> \<not> removable f)"

text \<open>The three names \<^verbatim>\<open>uploadData\<close> removes at the end of an entry.\<close>

definition temporary_files :: "string \<Rightarrow> string list" where
  "temporary_files file =
     [file @ ''.sgf.gz'', file @ ''.txt.0.gz'', file @ ''.txt.debug.0.gz'']"

subsection \<open>Worker\<close>

datatype run_state = RUNNING | NET_CHANGE | FINISHING

datatype worker_event =
    Started string string
  | Note string
  | WriteSgf
  | DumpTraining
  | ResultReady string int
  | GameQuit

record worker =
  m_state :: run_state
  m_option :: string
  worker_network :: string
  moves_made :: nat
  outbox :: "worker_event list"

definition init :: "string \<Rightarrow> string \<Rightarrow> worker" where
  "init gpuIndex net =
     \<lparr>m_state = RUNNING,
      m_option = (if gpuIndex \<noteq> [] then '' --gpu='' @ gpuIndex @ '' '' else [])
                 @ '' -g -q -d -n -m 30 -w '',
      worker_network = net, moves_made = 0, outbox = []\<rparr>"

text \<open>
  Modelled from the spec: \<^verbatim>\<open>ProductionWorker::newNetwork\<close> is declared in
  \<^verbatim>\<open>Production.h\<close>, which is not among the sources. The coordinator "broadcasts the new
  ModelIdentifier to every Worker, which each independently transition their own state to
  NET_CHANGE"; identifiers "are always applied as whole replacements".
\<close>

definition newNetwork :: "string \<Rightarrow> worker \<Rightarrow> worker" where
  "newNetwork net w = w\<lparr>m_state := NET_CHANGE, worker_network := net\<rparr>"

text \<open>
  \<^verbatim>\<open>getResult\<close> is the only caller of a worker in the file and \<^verbatim>\<open>newNetwork\<close> the only
  call it makes; it runs in the thread of whichever worker has just reported a game. What
  reaches a worker while it runs is therefore a sequence of \<^verbatim>\<open>newNetwork\<close> calls, and the
  model says at which points of the loop they are seen.
\<close>

definition deliver :: "string list \<Rightarrow> worker \<Rightarrow> worker" where
  "deliver nets w = foldl (\<lambda>w net. newNetwork net w) w nets"

definition post :: "worker_event \<Rightarrow> worker \<Rightarrow> worker" where
  "post e w = w\<lparr>outbox := outbox w @ [e]\<rparr>"

text \<open>
  The engine (class \<^verbatim>\<open>Game\<close>, not among the sources) is what it answers: for each move
  whether \<^verbatim>\<open>waitForMove\<close> succeeded and whether \<^verbatim>\<open>nextMove\<close> asks for another one, and
  for the game whether it started, whether \<^verbatim>\<open>getScore\<close> succeeded, its file name and how
  long it took. A script also says which \<^verbatim>\<open>newNetwork\<close> calls arrive while a move is
  played, between the last move and the \<^verbatim>\<open>switch\<close>, and between the \<^verbatim>\<open>switch\<close> and the
  test of the outer loop (the last includes what the slot called by \<^verbatim>\<open>emit\<close> does).
\<close>

record move_script =
  waited :: bool
  next_move :: bool
  arrivals :: "string list"

record game_script =
  pick_low :: bool
  starts :: bool
  moves :: "move_script list"
  score :: bool
  file_name :: string
  seconds :: int
  at_switch :: "string list"
  at_teardown :: "string list"

datatype play = Ended worker | Aborted worker | Stalled worker

text \<open>The inner \<^verbatim>\<open>do ... while (game.nextMove() && m_state == RUNNING)\<close>. A script that
  runs out of moves is an engine that never ends the game.\<close>

fun play_moves :: "move_script list \<Rightarrow> worker \<Rightarrow> play" where
  "play_moves [] w = Stalled w"
| "play_moves (m # ms) w =
     (if \<not> waited m then Aborted w
      else
        let w1 = deliver (arrivals m) (w\<lparr>moves_made := moves_made w + 1\<rparr>)
        in if next_move m \<and> m_state w1 = RUNNING then play_moves ms w1 else Ended w1)"

text \<open>The \<^verbatim>\<open>switch (m_state)\<close> after the game.\<close>

definition finish_game :: "game_script \<Rightarrow> worker \<Rightarrow> worker" where
  "finish_game g w =
     (case m_state w of
        RUNNING \<Rightarrow>
          let w1 = post (Note ''Game has ended.'') w;
              w2 = (if score g then post DumpTraining (post WriteSgf w1) else w1);
              w3 = post (ResultReady (file_name g) (seconds g)) w2
          in post GameQuit (post (Note ''Stopping engine.'') w3)
      | NET_CHANGE \<Rightarrow>
          let w1 = post (Note ''Best Network has changed: restarting.'') w;
              w2 = w1\<lparr>m_state := RUNNING\<rparr>
          in post GameQuit (post (Note ''Stopping engine.'') w2)
      | FINISHING \<Rightarrow>
          post GameQuit
            (post (Note ''Stopping engine.'') (post (Note ''Program ends: exiting.'') w)))"

datatype run_end = Finished | Returned | Starved

text \<open>The engine's options for one game: the resign rate is 0 when the random pick
  is below 0.2 and 5 otherwise, put in front of the worker's options.\<close>

definition game_option :: "game_script \<Rightarrow> worker \<Rightarrow> string" where
  "game_option g w =
     (let resignpct = (if pick_low g then ''0'' else ''5'')
      in '' -r '' @ resignpct @ m_option w)"

text \<open>One pass through the body of the outer loop: \<open>None\<close> when the loop goes on.\<close>

definition iteration :: "game_script \<Rightarrow> worker \<Rightarrow> run_end option \<times> worker" where
  "iteration g w =
     (let option = game_option g w;
          w1 = post (Started (worker_network w) option) w
      in if \<not> starts g then (Some Returned, w1)
         else
           (case play_moves (moves g) w1 of
              Aborted w2 \<Rightarrow> (Some Returned, w2)
            | Stalled w2 \<Rightarrow> (Some Starved, w2)
            | Ended w2 \<Rightarrow>
                let w3 = deliver (at_switch g) w2;
                    w4 = finish_game g w3;
                    w5 = deliver (at_teardown g) w4
                in if m_state w5 \<noteq> FINISHING then (None, w5) else (Some Finished, w5)))"

text \<open>\<^verbatim>\<open>ProductionWorker::run\<close> on the games the engine plays, in order. A list that
  runs out before the loop ends is a worker that is still playing.\<close>

fun run :: "game_script list \<Rightarrow> worker \<Rightarrow> run_end \<times> worker" where
  "run [] w = (Starved, w)"
| "run (g # gs) w =
     (case iteration g w of
        (Some e, w') \<Rightarrow> (e, w')
      | (None, w') \<Rightarrow> run gs w')"

text \<open>The worker as it reaches the \<^verbatim>\<open>switch\<close>, when the game started and its moves
  ended; \<open>None\<close> when the loop was left before.\<close>

definition game_end :: "game_script \<Rightarrow> worker \<Rightarrow> worker option" where
  "game_end g w =
     (if starts g then
        (case play_moves (moves g) (post (Started (worker_network w) (game_option g w)) w) of
           Ended w2 \<Rightarrow> Some (deliver (at_switch g) w2)
         | _ \<Rightarrow> None)
      else None)"

definition play_worker :: "play \<Rightarrow> worker" where
  "play_worker p = (case p of Ended w \<Rightarrow> w | Aborted w \<Rightarrow> w | Stalled w \<Rightarrow> w)"

text \<open>The games reported so far, read off the worker's events.\<close>

definition results :: "worker_event list \<Rightarrow> (string \<times> int) list" where
  "results evs = concat (map (\<lambda>e. case e of ResultReady f d \<Rightarrow> [(f, d)] | _ \<Rightarrow> []) evs)"

subsection \<open>The result handler\<close>

text \<open>
  What one call of \<^verbatim>\<open>getResult\<close> is given besides its arguments \<open>file\<close> and
  \<open>duration\<close>: the clock reading of \<^verbatim>\<open>printTimingInfo\<close> and the answers of the curl
  processes of the upload and of the refresh.
\<close>

record handler_call =
  call_file :: string
  call_duration :: int
  call_clock :: int
  upload_replies :: "nat \<Rightarrow> curl_reply"
  refresh_replies :: "nat \<Rightarrow> attempt_env"

text \<open>
  \<^verbatim>\<open>getResult\<close> after \<^verbatim>\<open>m_gamesPlayed++\<close> and before \<^verbatim>\<open>m_syncMutex.unlock()\<close>: the
  timing report, the upload, the refresh and, when the refresh returns false, the call of
  \<^verbatim>\<open>newNetwork\<close> on every worker of \<^verbatim>\<open>m_gamesThreads\<close>.
\<close>

definition report_and_refresh ::
  "ext \<Rightarrow> handler_call \<Rightarrow> production \<times> worker list
     \<Rightarrow> unit outcome \<times> production \<times> worker list" where
  "report_and_refresh X c pw =
     (case printTimingInfo (call_clock c) (call_duration c) (fst pw) of
        None \<Rightarrow> (Undefined, fst pw, snd pw)
      | Some s1 \<Rightarrow>
          let s2 = snd (uploadData X (upload_replies c) (call_file c) s1)
          in (case updateNetwork X (refresh_replies c) s2 of
                (Return unchanged, s3) \<Rightarrow>
                  (Return (), s3,
                   if \<not> unchanged then map (newNetwork (m_network s3)) (snd pw) else snd pw)
              | (Throw ex, s3) \<Rightarrow> (Throw ex, s3, snd pw)
              | (Exit, s3) \<Rightarrow> (Exit, s3, snd pw)
              | (Undefined, s3) \<Rightarrow> (Undefined, s3, snd pw)))"

text \<open>\<^verbatim>\<open>getResult\<close> run by one thread alone, from the lock to the unlock.\<close>

definition getResult ::
  "ext \<Rightarrow> handler_call \<Rightarrow> production \<times> worker list
     \<Rightarrow> unit outcome \<times> production \<times> worker list" where
  "getResult X c pw =
     report_and_refresh X c ((fst pw)\<lparr>m_gamesPlayed := m_gamesPlayed (fst pw) + 1\<rparr>, snd pw)"

text \<open>
  The signal is connected with \<^verbatim>\<open>Qt::DirectConnection\<close>, so \<^verbatim>\<open>getResult\<close> runs in the
  thread of the worker that emits, and several workers can be in it at once. Each thread
  is at one of these points of the handler: before \<^verbatim>\<open>m_syncMutex.lock()\<close>; holding the
  lock, before \<^verbatim>\<open>m_gamesPlayed++\<close> reads the counter; having read the value \<open>v\<close>, before
  it stores \<open>v + 1\<close>; before the rest of the handler; before
  \<^verbatim>\<open>m_syncMutex.unlock()\<close>; returned. The increment of the plain \<^verbatim>\<open>int\<close> is a load and
  a store that another thread could come between.
\<close>

datatype pc = AtLock | AtLoad | AtStore int | AtRest | AtUnlock | Done

record system =
  shared :: production
  pool :: "worker list"
  holder :: "nat option"
  pcs :: "nat \<Rightarrow> pc"
  stopped :: bool

text \<open>
  One step of thread \<open>i\<close>, \<open>None\<close> when it has none: a thread at the lock waits while
  another holds it, a returned thread has nothing to do, and nothing moves once the
  process has ended or left defined behaviour. Only the lock looks at who holds the mutex;
  the other steps are taken by whichever thread is there.
\<close>

definition thread_step ::
  "ext \<Rightarrow> (nat \<Rightarrow> handler_call) \<Rightarrow> nat \<Rightarrow> system \<Rightarrow> system option" where
  "thread_step X calls i s =
     (if stopped s then None
      else
        (case pcs s i of
           AtLock \<Rightarrow>
             if holder s = None
             then Some (s\<lparr>holder := Some i, pcs := (pcs s)(i := AtLoad)\<rparr>)
             else None
         | AtLoad \<Rightarrow> Some (s\<lparr>pcs := (pcs s)(i := AtStore (m_gamesPlayed (shared s)))\<rparr>)
         | AtStore v \<Rightarrow>
             Some (s\<lparr>shared := (shared s)\<lparr>m_gamesPlayed := v + 1\<rparr>,
                     pcs := (pcs s)(i := AtRest)\<rparr>)
         | AtRest \<Rightarrow>
             (case report_and_refresh X (calls i) (shared s, pool s) of
                (Return u, p, ws) \<Rightarrow>
                  Some (s\<lparr>shared := p, pool := ws, pcs := (pcs s)(i := AtUnlock)\<rparr>)
              | (r, p, ws) \<Rightarrow> Some (s\<lparr>shared := p, pool := ws, stopped := True\<rparr>))
         | AtUnlock \<Rightarrow> Some (s\<lparr>holder := None, pcs := (pcs s)(i := Done)\<rparr>)
         | Done \<Rightarrow> None))"

text \<open>
  An interleaving of \<open>N\<close> handler threads is the list of the threads in the order in
  which they take their steps; \<open>exec\<close> runs it, and gives \<open>None\<close> when it asks a thread
  for a step it does not have.
\<close>

fun exec ::
  "ext \<Rightarrow> (nat \<Rightarrow> handler_call) \<Rightarrow> nat \<Rightarrow> nat list \<Rightarrow> system \<Rightarrow> system option" where
  "exec X calls N [] s = Some s"
| "exec X calls N (i # sched) s =
     (if i < N then
        (case thread_step X calls i s of
           None \<Rightarrow> None
         | Some s' \<Rightarrow> exec X calls N sched s')
      else None)"

text \<open>All notifications have just been emitted: every thread is at the lock, which is
  free.\<close>

definition start :: "production \<Rightarrow> worker list \<Rightarrow> system" where
  "start p ws = \<lparr>shared = p, pool = ws, holder = None, pcs = (\<lambda>i. AtLock), stopped = False\<rparr>"




subsection \<open>Concrete inputs\<close>

text \<open>
  Stand-ins for the external functions, and small states and answers, on which the model
  is run: the digest is the reversed byte string, compression is the identity, and
  \<open>digits_value\<close> reads a string of decimal digits.
\<close>

definition digits_value :: "string \<Rightarrow> int" where
  "digits_value s = foldl (\<lambda>n c. 10 * n + (of_char c - 48)) 0 s"

definition test_ext :: ext where
  "test_ext =
     \<lparr>sha256_hex = rev, toInt = digits_value, gunzip_bytes = Some, gzip_bytes = Some\<rparr>"

definition plain_file :: "string \<Rightarrow> qfile" where
  "plain_file bytes = \<lparr>content = bytes, openable = True, readable = True, removable = True\<rparr>"

definition fresh :: production where
  "fresh = \<lparr>m_network = [], m_version = 1, m_keepPath = [], m_debugPath = [],
            m_gamesPlayed = 0, m_movesMade = 0, disk = Map.empty, folders = {},
            console = []\<rparr>"

definition reply :: "int \<Rightarrow> string \<Rightarrow> (string \<times> qfile) option \<Rightarrow> curl_reply" where
  "reply code out sv = \<lparr>exit_code = code, std_out = out, saved = sv\<rparr>"


text \<open>The server names the network abc and asks for client version 1; the payload it
  serves unpacks to the given bytes. The digest of cba is abc.\<close>

definition serves :: "string \<Rightarrow> attempt_env" where
  "serves bytes =
     \<lparr>hash_reply = reply 0 (''abc'' @ [CHR 0x0A] @ ''1'') None,
      download_reply = reply 0 ''abc.gz'' (Some (''abc.gz'', plain_file bytes))\<rparr>"

definition have_abc :: production where
  "have_abc = fresh\<lparr>m_network := ''abc'', disk := [''abc'' \<mapsto> plain_file ''cba'']\<rparr>"

definition lost_abc :: production where
  "lost_abc = fresh\<lparr>m_network := ''abc''\<rparr>"

definition corrupt_abc :: production where
  "corrupt_abc = fresh\<lparr>m_network := ''abc'', disk := [''abc'' \<mapsto> plain_file ''xyz'']\<rparr>"

definition stuck_abc :: production where
  "stuck_abc =
     fresh\<lparr>m_network := ''abc'',
           disk := [''abc'' \<mapsto> (plain_file ''xyz'')\<lparr>removable := False\<rparr>]\<rparr>"

text \<open>A worker on network abc with no GPU option, and a game of a single move during
  which the given networks are broadcast.\<close>

definition w0 :: worker where
  "w0 = init [] ''abc''"

definition one_move :: "bool \<Rightarrow> string list \<Rightarrow> game_script" where
  "one_move decided nets =
     \<lparr>pick_low = False, starts = True,
      moves = [\<lparr>waited = True, next_move = False, arrivals = nets\<rparr>],
      score = decided, file_name = ''g1'', seconds = 60, at_switch = [], at_teardown = []\<rparr>"

text \<open>The directory after a game g1, with its record, training data and debug data; in
  the second the training data cannot be removed.\<close>

definition played :: production where
  "played =
     fresh\<lparr>m_network := ''abc'',
           disk := [''g1.sgf'' \<mapsto> plain_file ''(;GM[1])'',
                    ''g1.txt.0.gz'' \<mapsto> plain_file ''planes'',
                    ''g1.txt.debug.0.gz'' \<mapsto> plain_file ''debug'']\<rparr>"

definition played_locked :: production where
  "played_locked =
     fresh\<lparr>m_network := ''abc'',
           disk := [''g1.sgf'' \<mapsto> plain_file ''(;GM[1])'',
                    ''g1.txt.0.gz'' \<mapsto> (plain_file ''planes'')\<lparr>removable := False\<rparr>,
                    ''g1.txt.debug.0.gz'' \<mapsto> plain_file ''debug'']\<rparr>"


text \<open>A notification for game g1 at a time when the server is up and names network abc.\<close>

definition quiet_call :: handler_call where
  "quiet_call =
     \<lparr>call_file = ''g1'', call_duration = 60, call_clock = 100,
      upload_replies = (\<lambda>i. reply 0 [] None), refresh_replies = (\<lambda>i. serves ''cba'')\<rparr>"

definition flaky :: "nat \<Rightarrow> attempt_env" where
  "flaky i = (if i = 0 then serves ''xyz'' else serves ''cba'')"

section \<open>Properties\<close>

subsection \<open>Console and directory across the steps\<close>

lemma emit_ev_simps [simp]:
  "disk (emit_ev e s) = disk s"
  "m_network (emit_ev e s) = m_network s"
  "m_version (emit_ev e s) = m_version s"
  "m_gamesPlayed (emit_ev e s) = m_gamesPlayed s"
  "console (emit_ev e s) = console s @ [e]"
  by (simp_all add: emit_ev_def)

lemma sleeps_simps [simp]:
  "sleeps [] = []"
  "sleeps (xs @ ys) = sleeps xs @ sleeps ys"
  "sleeps (Sleep d # xs) = d # sleeps xs"
  "sleeps (Say m # xs) = sleeps xs"
  "sleeps (SayNum m n # xs) = sleeps xs"
  "sleeps (SayWhat ex # xs) = sleeps xs"
  "sleeps (Exec c # xs) = sleeps xs"
  "sleeps (Submit net ver sgf dat # xs) = sleeps xs"
  by (simp_all add: sleeps_def)

lemma split_nl_nonempty: "split_nl s \<noteq> []"
  by (induction s) (auto split: list.splits)

lemma mismatch_is_removed:
  assumes "disk s (m_network s) = Some f" "openable f" "readable f"
    "sha256_hex X (content f) \<noteq> m_network s"
  shows "fst (networkExists X s) = Return False
       \<and> disk (snd (networkExists X s)) (m_network s) = (if removable f then None else Some f)"
  using assms by (simp add: networkExists_def remove_file_def Let_def)

lemma networkExists_sleeps:
  "sleeps (console (snd (networkExists X s))) = sleeps (console s)"
  by (simp add: networkExists_def remove_file_def Let_def split: option.splits prod.splits)

lemma networkExists_sleeps_snd:
  "networkExists X s = (r, s1) \<Longrightarrow> sleeps (console s1) = sleeps (console s)"
  using networkExists_sleeps [of X s] by simp

lemma fetchBestNetworkHash_sleeps:
  "sleeps (console (snd (fetchBestNetworkHash X c s))) = sleeps (console s)"
  by (simp add: fetchBestNetworkHash_def Let_def)

lemma start_download_sleeps [simp]:
  "sleeps (console (start_download curl s)) = sleeps (console s)"
  by (simp add: start_download_def Let_def split: option.splits prod.splits)

lemma unpack_download_sleeps [simp]:
  "sleeps (console (unpack_download X curl s)) = sleeps (console s)"
  by (simp add: unpack_download_def Let_def)

text \<open>\<^verbatim>\<open>fetchBestNetwork\<close> in terms of its two named parts.\<close>

lemma fetchBestNetwork_eq:
  "fetchBestNetwork X curl s0 =
     (case networkExists X s0 of
        (Exit, s1) \<Rightarrow> (Exit, s1)
      | (Throw ex, s1) \<Rightarrow> (Throw ex, s1)
      | (Undefined, s1) \<Rightarrow> (Undefined, s1)
      | (Return True, s1) \<Rightarrow> (Return (), emit_ev (Say ''Already downloaded network.'') s1)
      | (Return False, s1) \<Rightarrow>
          if exit_code curl \<noteq> 0 then
            (Throw (CurlExitCode (exit_code curl)), start_download curl s1)
          else (case networkExists X (after_download X curl s1) of
                  (Return True, s10) \<Rightarrow> (Return (), s10)
                | (r, s10) \<Rightarrow> (Exit, s10)))"
proof (cases "networkExists X s0")
  case (Pair r s1)
  show ?thesis
  proof (cases r)
    case (Return b)
    show ?thesis
    proof (cases b)
      case True
      with Pair Return show ?thesis by (simp add: fetchBestNetwork_def)
    next
      case False
      with Pair Return show ?thesis
        by (simp add: fetchBestNetwork_def after_download_def start_download_def
            unpack_download_def Let_def)
    qed
  next
    case (Throw ex)
    with Pair show ?thesis by (simp add: fetchBestNetwork_def)
  next
    case Exit
    with Pair show ?thesis by (simp add: fetchBestNetwork_def)
  next
    case Undefined
    with Pair show ?thesis by (simp add: fetchBestNetwork_def)
  qed
qed

lemma fetchBestNetwork_sleeps:
  "sleeps (console (snd (fetchBestNetwork X curl s))) = sleeps (console s)"
proof -
  obtain r s1 where n1: "networkExists X s = (r, s1)"
    by (cases "networkExists X s")
  obtain r' s10 where n2: "networkExists X (after_download X curl s1) = (r', s10)"
    by (cases "networkExists X (after_download X curl s1)")
  have a: "sleeps (console s1) = sleeps (console s)"
    using n1 by (rule networkExists_sleeps_snd)
  have "sleeps (console s10) = sleeps (console (after_download X curl s1))"
    using n2 by (rule networkExists_sleeps_snd)
  then have b: "sleeps (console s10) = sleeps (console s)"
    using a by (simp add: after_download_def)
  show ?thesis
    unfolding fetchBestNetwork_eq n1
    by (simp add: n2 a b split: outcome.splits bool.splits)
qed

lemma attempt_sleeps:
  "sleeps (console (snd (attempt X e s))) = sleeps (console s)"
proof -
  obtain r s1 where h: "fetchBestNetworkHash X (hash_reply e) s = (r, s1)"
    by (cases "fetchBestNetworkHash X (hash_reply e) s")
  obtain r' s2 where d: "fetchBestNetwork X (download_reply e) s1 = (r', s2)"
    by (cases "fetchBestNetwork X (download_reply e) s1")
  have a: "sleeps (console s1) = sleeps (console s)"
    using fetchBestNetworkHash_sleeps [of X "hash_reply e" s] h by simp
  have b: "sleeps (console s2) = sleeps (console s)"
    using fetchBestNetwork_sleeps [of X "download_reply e" s1] d a by simp
  show ?thesis
    by (simp add: attempt_def h d a b split: outcome.splits)
qed



lemma retry_loop_step:
  "k < MAX_RETRIES \<Longrightarrow>
     retry_loop X env k s =
       (case attempt X (env k) s of
          (Throw ex, s1) \<Rightarrow>
            (case on_exception ex k s1 of
               (Return u, s2) \<Rightarrow> retry_loop X env (k + 1) s2
             | (Throw ex2, s2) \<Rightarrow> (Throw ex2, s2)
             | (Exit, s2) \<Rightarrow> (Exit, s2)
             | (Undefined, s2) \<Rightarrow> (Undefined, s2))
        | (r, s1) \<Rightarrow> (r, s1))"
  by (subst retry_loop.simps) simp


lemma cmdlines_differ: "hash_cmdline \<noteq> download_cmdline"
  by (simp add: hash_cmdline_def download_cmdline_def)

subsection \<open>The retry delay\<close>

lemma pow_product_mono: "i \<le> j \<Longrightarrow> pow_product i \<le> pow_product j"
  by (simp add: pow_product_def RETRY_DELAY_MIN_SEC_def power_increasing)

lemma pow_product_nonneg: "0 \<le> pow_product i"
  by (simp add: pow_product_def RETRY_DELAY_MIN_SEC_def)

lemma pow_product_44: "\<lfloor>pow_product 44\<rfloor> < 2 ^ 31"
  by code_simp

lemma pow_product_in_range:
  assumes "i \<le> 44"
  shows "double_to_int (pow_product i) = Some \<lfloor>pow_product i\<rfloor>"
proof -
  have "\<lfloor>pow_product i\<rfloor> \<le> \<lfloor>pow_product 44\<rfloor>"
    using assms by (intro floor_mono pow_product_mono)
  then have up: "\<lfloor>pow_product i\<rfloor> < 2 ^ 31"
    using pow_product_44 by linarith
  have "0 \<le> \<lfloor>pow_product i\<rfloor>"
    using pow_product_nonneg by simp
  moreover have "- (2 ^ 31) \<le> (0::int)"
    by simp
  ultimately have lo: "- (2 ^ 31) \<le> \<lfloor>pow_product i\<rfloor>"
    by (rule order_trans [rotated])
  show ?thesis
    using up lo pow_product_nonneg by (simp add: double_to_int_def Let_def)
qed


text \<open>
  Claim C4, as the code has it: for every attempt index \<open>i\<close> from 0 to 44 the delay is
  the whole number of seconds \<open>min (floor (30 * 1.5^i)) 3600\<close>; it never exceeds 3600 and
  no earlier attempt of the call waits longer.
\<close>

theorem retry_delay_truncated:
  assumes "i \<le> 44"
  shows "\<exists>d. retry_delay i = Some d
           \<and> d = min \<lfloor>30 * (3 / 2 :: rat) ^ i\<rfloor> 3600
           \<and> d \<le> 3600
           \<and> (\<forall>j d'. j \<le> i \<longrightarrow> retry_delay j = Some d' \<longrightarrow> d' \<le> d)"
proof -
  have d: "retry_delay k = Some (min \<lfloor>pow_product k\<rfloor> 3600)" if "k \<le> 44" for k
    using that by (simp add: retry_delay_def pow_product_in_range RETRY_DELAY_MAX_SEC_def)
  have mono: "min \<lfloor>pow_product j\<rfloor> 3600 \<le> min \<lfloor>pow_product i\<rfloor> (3600::int)" if "j \<le> i" for j
    using floor_mono [OF pow_product_mono [OF that]] by linarith
  have "\<forall>j d'. j \<le> i \<longrightarrow> retry_delay j = Some d' \<longrightarrow> d' \<le> min \<lfloor>pow_product i\<rfloor> 3600"
  proof (intro allI impI)
    fix j d' assume ji: "j \<le> i" and r: "retry_delay j = Some d'"
    from ji assms have "j \<le> 44" by simp
    with d r have "d' = min \<lfloor>pow_product j\<rfloor> 3600" by simp
    with mono [OF ji] show "d' \<le> min \<lfloor>pow_product i\<rfloor> 3600" by simp
  qed
  moreover have "pow_product i = 30 * (3 / 2) ^ i"
    by (simp add: pow_product_def RETRY_DELAY_MIN_SEC_def)
  ultimately show ?thesis
    using d [OF assms] by simp
qed

text \<open>The theorem at \<open>i = 2\<close>, with two more values of the delay.\<close>

theorem retry_delay_truncated_witness:
  "(2::nat) \<le> 44 \<and> retry_delay 2 = Some 67 \<and> retry_delay 1 = Some 45 \<and> retry_delay 12 = Some 3600"
proof -
  have h: "(2::nat) \<le> 44" by simp
  from retry_delay_truncated [OF h] obtain d where
    "retry_delay 2 = Some d" "d = min \<lfloor>30 * (3 / 2 :: rat) ^ 2\<rfloor> 3600" by blast
  moreover have "min \<lfloor>30 * (3 / 2 :: rat) ^ 2\<rfloor> 3600 = (67::int)" by code_simp
  ultimately have "retry_delay 2 = Some 67" by simp
  moreover have "retry_delay 1 = Some 45" by code_simp
  moreover have "retry_delay 12 = Some 3600" by code_simp
  ultimately show ?thesis by simp
qed

text \<open>Claim C4 as stated fails at \<open>i = 2\<close>: the delay is 67 seconds, and
  \<open>min (30 * 1.5^2) 3600\<close> is 67.5.\<close>

theorem retry_delay_not_real_min:
  "retry_delay 2 = Some 67 \<and> (of_int 67 :: rat) \<noteq> min (30 * (3 / 2) ^ 2) 3600"
  by code_simp

subsection \<open>The retry loop\<close>







subsection \<open>The model file on disk\<close>

text \<open>
  Claim C6, as the code has it: for a local model file that is read and whose digest is
  not its name, \<^verbatim>\<open>networkExists\<close> returns false; the file is gone afterwards when the
  directory lets it be removed, and is still there when it does not (the result of
  \<^verbatim>\<open>remove\<close> is not looked at on this path).
\<close>

theorem networkExists_mismatch:
  assumes "disk s (m_network s) = Some f" and "openable f" and "readable f"
    and "sha256_hex X (content f) \<noteq> m_network s"
  shows "fst (networkExists X s) = Return False
       \<and> disk (snd (networkExists X s)) (m_network s) = (if removable f then None else Some f)"
  using assms by (simp add: networkExists_def remove_file_def Let_def)

text \<open>The theorem on a removable file with the wrong bytes.\<close>

theorem networkExists_mismatch_witness:
  "fst (networkExists test_ext corrupt_abc) = Return False
   \<and> disk (snd (networkExists test_ext corrupt_abc)) ''abc'' = None"
  using networkExists_mismatch [of corrupt_abc "plain_file ''xyz''" test_ext]
  by (simp add: corrupt_abc_def fresh_def plain_file_def test_ext_def)

text \<open>Claim C6 as stated fails on a file that cannot be removed: \<^verbatim>\<open>networkExists\<close>
  returns false and the file is still there.\<close>

theorem networkExists_keeps_file_counterexample:
  "disk stuck_abc (m_network stuck_abc) \<noteq> None
   \<and> sha256_hex test_ext (content (the (disk stuck_abc (m_network stuck_abc)))) \<noteq> m_network stuck_abc
   \<and> fst (networkExists test_ext stuck_abc) = Return False
   \<and> disk (snd (networkExists test_ext stuck_abc)) (m_network stuck_abc) \<noteq> None"
  by (simp add: stuck_abc_def fresh_def plain_file_def test_ext_def networkExists_def
      remove_file_def Let_def)

subsection \<open>Refreshing the model\<close>

text \<open>
  Claim C3, as the code has it: when the server names the current network, asks for no
  newer client, and the file of that name is on disk and its digest is its name, the
  refresh returns true, starts no download and leaves directory and identifier as they
  were. This holds at every value \<open>k\<close> of the retry counter; \<^verbatim>\<open>updateNetwork\<close> is the
  loop from \<open>k = 0\<close>.
\<close>

theorem retry_loop_same_hash:
  assumes "k < MAX_RETRIES"
    and "exit_code (hash_reply (env k)) = 0"
    and "split_nl (std_out (hash_reply (env k))) = [m_network s, v]"
    and "toInt X v \<le> m_version s"
    and "disk s (m_network s) = Some f" and "openable f" and "readable f"
    and "sha256_hex X (content f) = m_network s"
  shows "fst (retry_loop X env k s) = Return True
       \<and> console (snd (retry_loop X env k s)) =
           console s @ [Exec hash_cmdline, Say (''Best network hash: '' @ m_network s),
                        Say (''Required client version: '' @ v), Say '' (OK)'',
                        Say ''Already downloaded network.'']
       \<and> disk (snd (retry_loop X env k s)) = disk s
       \<and> m_network (snd (retry_loop X env k s)) = m_network s"
proof -
  define s4 where "s4 = emit_ev (Say '' (OK)'')
      (emit_ev (Say (''Required client version: '' @ v))
        (emit_ev (Say (''Best network hash: '' @ m_network s))
          (emit_ev (Exec hash_cmdline) s)))"
  have h: "fetchBestNetworkHash X (hash_reply (env k)) s = (Return True, s4)"
    using assms(2,3,4) by (simp add: fetchBestNetworkHash_def Let_def s4_def)
  have n: "networkExists X s4 = (Return True, s4)"
    using assms(5-8) by (simp add: networkExists_def s4_def)
  have f: "fetchBestNetwork X (download_reply (env k)) s4 =
             (Return (), emit_ev (Say ''Already downloaded network.'') s4)"
    by (simp add: fetchBestNetwork_def n)
  have "attempt X (env k) s = (Return True, emit_ev (Say ''Already downloaded network.'') s4)"
    by (simp add: attempt_def h f)
  then have "retry_loop X env k s = (Return True, emit_ev (Say ''Already downloaded network.'') s4)"
    using assms(1) by (subst retry_loop.simps) simp
  then show ?thesis by (simp add: s4_def)
qed

text \<open>The theorem on a client that holds the network the server names.\<close>

theorem retry_loop_same_hash_witness:
  "fst (updateNetwork test_ext (\<lambda>i. serves ''cba'') have_abc) = Return True
   \<and> disk (snd (updateNetwork test_ext (\<lambda>i. serves ''cba'') have_abc)) = disk have_abc
   \<and> Exec download_cmdline \<notin> set (console (snd (updateNetwork test_ext (\<lambda>i. serves ''cba'') have_abc)))"
proof -
  have "fst (retry_loop test_ext (\<lambda>i. serves ''cba'') 0 have_abc) = Return True
       \<and> console (snd (retry_loop test_ext (\<lambda>i. serves ''cba'') 0 have_abc)) =
           console have_abc @ [Exec hash_cmdline, Say (''Best network hash: '' @ m_network have_abc),
                        Say (''Required client version: '' @ ''1''), Say '' (OK)'',
                        Say ''Already downloaded network.'']
       \<and> disk (snd (retry_loop test_ext (\<lambda>i. serves ''cba'') 0 have_abc)) = disk have_abc
       \<and> m_network (snd (retry_loop test_ext (\<lambda>i. serves ''cba'') 0 have_abc)) = m_network have_abc"
    by (rule retry_loop_same_hash [where f = "plain_file ''cba''"])
       (simp_all add: MAX_RETRIES_def serves_def reply_def have_abc_def fresh_def
          test_ext_def digits_value_def plain_file_def)
  then show ?thesis
    by (simp add: updateNetwork_def have_abc_def fresh_def cmdlines_differ [symmetric])
qed

text \<open>Claim C3 as stated fails when the file is not on disk: the server names the current
  network, the refresh returns true, and it has downloaded the model.\<close>

theorem same_hash_downloads_counterexample:
  "split_nl (std_out (hash_reply (serves ''cba''))) = [m_network lost_abc, ''1'']
   \<and> fst (updateNetwork test_ext (\<lambda>i. serves ''cba'') lost_abc) = Return True
   \<and> Exec download_cmdline \<in> set (console (snd (updateNetwork test_ext (\<lambda>i. serves ''cba'') lost_abc)))"
  by (simp add: updateNetwork_def retry_loop_step MAX_RETRIES_def serves_def reply_def
        lost_abc_def fresh_def test_ext_def digits_value_def plain_file_def attempt_def
        fetchBestNetworkHash_def fetchBestNetwork_def networkExists_def Let_def gunzip_def
        chop_def remove_file_def)

text \<open>
  Claim C2, as the code has it: when the model has to be downloaded, the transfer
  succeeds and the unpacked file is read and its digest is not its name, the refresh ends
  the process with \<^verbatim>\<open>exit(EXIT_FAILURE)\<close> at this attempt: nothing is slept and nothing
  is retried. The corrupt file is gone when the directory lets it be removed.
\<close>

theorem retry_loop_corrupt_download:
  assumes "k < MAX_RETRIES"
    and "fetchBestNetworkHash X (hash_reply (env k)) s = (Return b, s1)"
    and "networkExists X s1 = (Return False, s2)"
    and "exit_code (download_reply (env k)) = 0"
    and "s3 = after_download X (download_reply (env k)) s2"
    and "disk s3 (m_network s3) = Some f" and "openable f" and "readable f"
    and "sha256_hex X (content f) \<noteq> m_network s3"
  shows "fst (retry_loop X env k s) = Exit
       \<and> disk (snd (retry_loop X env k s)) (m_network s3) = (if removable f then None else Some f)
       \<and> sleeps (console (snd (retry_loop X env k s))) = sleeps (console s)"
proof -
  obtain s4 where n: "networkExists X s3 = (Return False, s4)"
    using mismatch_is_removed [OF assms(6-9)] by (cases "networkExists X s3") simp
  have d: "disk s4 (m_network s3) = (if removable f then None else Some f)"
    using mismatch_is_removed [OF assms(6-9)] n by simp
  have f: "fetchBestNetwork X (download_reply (env k)) s1 = (Exit, s4)"
    using assms(3,4) n by (simp add: fetchBestNetwork_eq assms(5) [symmetric])
  have a: "attempt X (env k) s = (Exit, s4)"
    by (simp add: attempt_def assms(2) f)
  have r: "retry_loop X env k s = (Exit, s4)"
    using assms(1) a by (simp add: retry_loop_step)
  have "sleeps (console (snd (attempt X (env k) s))) = sleeps (console s)"
    by (rule attempt_sleeps)
  with a have "sleeps (console s4) = sleeps (console s)" by simp
  with r d show ?thesis by simp
qed

text \<open>The theorem on a server whose payload is corrupt.\<close>

theorem retry_loop_corrupt_download_witness:
  "fst (updateNetwork test_ext (\<lambda>i. serves ''xyz'') fresh) = Exit
   \<and> disk (snd (updateNetwork test_ext (\<lambda>i. serves ''xyz'') fresh)) ''abc'' = None"
proof -
  define s1 where "s1 = snd (fetchBestNetworkHash test_ext (hash_reply (serves ''xyz'')) fresh)"
  have h: "fetchBestNetworkHash test_ext (hash_reply ((\<lambda>i. serves ''xyz'') 0)) fresh = (Return False, s1)"
    by (simp add: s1_def fetchBestNetworkHash_def serves_def reply_def fresh_def test_ext_def
        digits_value_def Let_def)
  have m: "m_network s1 = ''abc''" "disk s1 = Map.empty"
    by (simp_all add: s1_def fetchBestNetworkHash_def serves_def reply_def fresh_def test_ext_def
        digits_value_def Let_def)
  have n: "networkExists test_ext s1 = (Return False, s1)"
    by (simp add: networkExists_def m)
  define s3 where "s3 = after_download test_ext (download_reply ((\<lambda>i. serves ''xyz'') 0)) s1"
  have s3: "m_network s3 = ''abc''" "disk s3 (m_network s3) = Some (plain_file ''xyz'')"
    by (simp_all add: s3_def after_download_def start_download_def unpack_download_def Let_def m
        serves_def reply_def gunzip_def chop_def test_ext_def plain_file_def)
  have k: "0 < MAX_RETRIES" by (simp add: MAX_RETRIES_def)
  have e: "exit_code (download_reply ((\<lambda>i. serves ''xyz'') 0)) = 0"
    by (simp add: serves_def reply_def)
  have "fst (retry_loop test_ext (\<lambda>i. serves ''xyz'') 0 fresh) = Exit
       \<and> disk (snd (retry_loop test_ext (\<lambda>i. serves ''xyz'') 0 fresh)) (m_network s3) =
          (if removable (plain_file ''xyz'') then None else Some (plain_file ''xyz''))
       \<and> sleeps (console (snd (retry_loop test_ext (\<lambda>i. serves ''xyz'') 0 fresh))) = sleeps (console fresh)"
    by (rule retry_loop_corrupt_download [OF k h n e s3_def s3(2)])
       (simp_all add: plain_file_def test_ext_def s3(1))
  then show ?thesis
    by (simp add: updateNetwork_def s3(1) plain_file_def)
qed

lemma run_flaky:
  "updateNetwork test_ext flaky fresh =
     (Exit, fresh\<lparr>m_network := ''abc'',
        console := [Exec hash_cmdline, Say ''Best network hash: abc'',
          Say ''Required client version: 1'', Say '' (OK)'', Exec download_cmdline,
          Say ''Curl filename: abc.gz'', Exec ''gunzip -q abc.gz'', Say ''Net filename: abc'',
          Say ''Downloaded network hash doesn't match.'']\<rparr>)"
  by (simp add: updateNetwork_def retry_loop_step MAX_RETRIES_def flaky_def serves_def reply_def
        fresh_def test_ext_def digits_value_def plain_file_def attempt_def
        fetchBestNetworkHash_def fetchBestNetwork_def networkExists_def Let_def gunzip_def
        chop_def remove_file_def emit_ev_def)

text \<open>Claim C2 as stated fails on a server whose first payload is corrupt and whose later
  ones are good: the process exits after a single hash query, the retry that would have
  succeeded is never made.\<close>

theorem corrupt_download_exits_counterexample:
  "fst (updateNetwork test_ext flaky fresh) = Exit
   \<and> count_list (console (snd (updateNetwork test_ext flaky fresh))) (Exec hash_cmdline) = 1
   \<and> disk (snd (updateNetwork test_ext flaky fresh)) ''abc'' = None"
proof -
  have "hash_cmdline \<noteq> ''gunzip -q abc.gz''"
    by (simp add: hash_cmdline_def)
  then show ?thesis
    unfolding run_flaky by (simp add: fresh_def cmdlines_differ [symmetric])
qed

subsection \<open>The timing report\<close>

text \<open>
  Claim C10: \<^verbatim>\<open>printTimingInfo\<close> never executes a division by zero, and when
  \<^verbatim>\<open>m_movesMade\<close> or \<^verbatim>\<open>m_gamesPlayed\<close> is zero it returns with nothing printed and
  nothing changed.
\<close>

theorem printTimingInfo_guard:
  "printTimingInfo total_time_s duration s \<noteq> None
   \<and> (m_movesMade s = 0 \<or> m_gamesPlayed s = 0
        \<longrightarrow> printTimingInfo total_time_s duration s = Some s)"
  by (auto simp: printTimingInfo_def c_div_def)

text \<open>The theorem before the first game and after two games of 400 moves.\<close>

theorem printTimingInfo_guard_witness:
  "printTimingInfo 100 5 fresh = Some fresh
   \<and> printTimingInfo 120 5 (fresh\<lparr>m_gamesPlayed := 2, m_movesMade := 400\<rparr>) \<noteq> None"
  using printTimingInfo_guard [of 100 5 fresh]
    printTimingInfo_guard [of 120 5 "fresh\<lparr>m_gamesPlayed := 2, m_movesMade := 400\<rparr>"]
  by (simp add: fresh_def)

subsection \<open>The upload\<close>

lemma chop_suffix: "length suf = n \<Longrightarrow> chop n (base @ suf) = base"
  by (simp add: chop_def)

lemma remove_file_same: "gone_or_stuck (snd (remove_file fs name)) name"
  by (simp add: remove_file_def gone_or_stuck_def split: option.splits)

lemma remove_file_keeps: "gone_or_stuck fs n \<Longrightarrow> gone_or_stuck (snd (remove_file fs name)) n"
  by (simp add: remove_file_def gone_or_stuck_def split: option.splits)

lemma upload_entry_disk:
  "\<exists>fs. disk (upload_entry X curl sgf_file s) =
      snd (remove_file (snd (remove_file (snd (remove_file fs (sgf_file @ ''.gz'')))
              (chop 4 sgf_file @ ''.txt.0.gz''))) (chop 4 sgf_file @ ''.txt.debug.0.gz''))"
  by (simp add: upload_entry_def Let_def) blast

lemma upload_entry_removes:
  "gone_or_stuck (disk (upload_entry X curl sgf_file s)) (sgf_file @ ''.gz'')"
  "gone_or_stuck (disk (upload_entry X curl sgf_file s)) (chop 4 sgf_file @ ''.txt.0.gz'')"
  "gone_or_stuck (disk (upload_entry X curl sgf_file s)) (chop 4 sgf_file @ ''.txt.debug.0.gz'')"
proof -
  obtain fs where d: "disk (upload_entry X curl sgf_file s) =
      snd (remove_file (snd (remove_file (snd (remove_file fs (sgf_file @ ''.gz'')))
              (chop 4 sgf_file @ ''.txt.0.gz''))) (chop 4 sgf_file @ ''.txt.debug.0.gz''))"
    using upload_entry_disk by blast
  show "gone_or_stuck (disk (upload_entry X curl sgf_file s)) (sgf_file @ ''.gz'')"
    unfolding d by (rule remove_file_keeps, rule remove_file_keeps, rule remove_file_same)
  show "gone_or_stuck (disk (upload_entry X curl sgf_file s)) (chop 4 sgf_file @ ''.txt.0.gz'')"
    unfolding d by (rule remove_file_keeps, rule remove_file_same)
  show "gone_or_stuck (disk (upload_entry X curl sgf_file s)) (chop 4 sgf_file @ ''.txt.debug.0.gz'')"
    unfolding d by (rule remove_file_same)
qed

lemma upload_entry_console:
  "console (upload_entry X curl sgf_file s) =
     console s
     @ [Exec (''gzip '' @ sgf_file),
        Submit (m_network s) (m_version s) (sgf_file @ ''.gz'') (chop 4 sgf_file @ ''.txt.0.gz'')]
     @ (if exit_code curl \<noteq> 0
        then [SayNum ''Upload failed. Curl Exit code: '' (exit_code curl), Say ''Continuing...'']
        else [])
     @ [Say (std_out curl)]"
  by (simp add: upload_entry_def Let_def)

text \<open>
  Claim C8, as the code has it: an upload that finds the game record returns normally
  whatever the transfer status; a non-zero status is printed; and each of the three
  temporary files (compressed game record, training data, debug data) is gone afterwards
  unless the directory does not let it be removed (the results of the removals are not
  looked at).
\<close>

theorem uploadData_cleans_up:
  assumes "disk s (file @ ''.sgf'') \<noteq> None"
  shows "fst (uploadData X env file s) = Return ()
       \<and> (exit_code (env 0) \<noteq> 0 \<longrightarrow>
            SayNum ''Upload failed. Curl Exit code: '' (exit_code (env 0))
              \<in> set (console (snd (uploadData X env file s))))
       \<and> (\<forall>name \<in> set (temporary_files file).
            gone_or_stuck (disk (snd (uploadData X env file s))) name)"
proof -
  have c: "chop 4 (file @ ''.sgf'') = file"
    by (rule chop_suffix) simp
  have u: "snd (uploadData X env file s) = upload_entry X (env 0) (file @ ''.sgf'') s"
    using assms by (simp add: uploadData_def entryInfoList_def)
  have "\<forall>name \<in> set (temporary_files file).
          gone_or_stuck (disk (upload_entry X (env 0) (file @ ''.sgf'') s)) name"
    using upload_entry_removes [of X "env 0" "file @ ''.sgf''" s]
    by (simp add: temporary_files_def c)
  then show ?thesis
    by (simp add: u upload_entry_console) (simp add: uploadData_def)
qed

lemma played_disk_after:
  "disk (snd (uploadData test_ext (\<lambda>i. reply 7 [] None) ''g1'' played)) ''g1.sgf.gz'' = None"
  "disk (snd (uploadData test_ext (\<lambda>i. reply 7 [] None) ''g1'' played)) ''g1.txt.0.gz'' = None"
  "disk (snd (uploadData test_ext (\<lambda>i. reply 7 [] None) ''g1'' played)) ''g1.txt.debug.0.gz'' = None"
  by code_simp+

text \<open>The theorem on a failed submission after game g1.\<close>

theorem uploadData_cleans_up_witness:
  "fst (uploadData test_ext (\<lambda>i. reply 7 [] None) ''g1'' played) = Return ()
   \<and> SayNum ''Upload failed. Curl Exit code: '' 7
        \<in> set (console (snd (uploadData test_ext (\<lambda>i. reply 7 [] None) ''g1'' played)))
   \<and> disk (snd (uploadData test_ext (\<lambda>i. reply 7 [] None) ''g1'' played)) ''g1.sgf.gz'' = None
   \<and> disk (snd (uploadData test_ext (\<lambda>i. reply 7 [] None) ''g1'' played)) ''g1.txt.0.gz'' = None
   \<and> disk (snd (uploadData test_ext (\<lambda>i. reply 7 [] None) ''g1'' played)) ''g1.txt.debug.0.gz'' = None"
proof -
  have d: "disk played (''g1'' @ ''.sgf'') \<noteq> None"
    by (simp add: played_def fresh_def)
  have e: "exit_code (reply 7 [] None) = 7"
    by (simp add: reply_def)
  from uploadData_cleans_up [OF d, of test_ext "\<lambda>i. reply 7 [] None"] show ?thesis
    by (simp add: e played_disk_after)
qed

text \<open>Claim C8 as stated fails when the training data cannot be removed: the submission
  fails, the upload returns, and the training data is still there.\<close>

theorem uploadData_keeps_locked_file_counterexample:
  "exit_code (reply 7 [] None) \<noteq> 0
   \<and> disk played_locked ''g1.sgf'' \<noteq> None
   \<and> fst (uploadData test_ext (\<lambda>i. reply 7 [] None) ''g1'' played_locked) = Return ()
   \<and> disk (snd (uploadData test_ext (\<lambda>i. reply 7 [] None) ''g1'' played_locked)) ''g1.txt.0.gz'' \<noteq> None"
  by code_simp

subsection \<open>The worker\<close>

lemma post_simps [simp]:
  "outbox (post e w) = outbox w @ [e]"
  "m_state (post e w) = m_state w"
  "worker_network (post e w) = worker_network w"
  "m_option (post e w) = m_option w"
  by (simp_all add: post_def)

lemma deliver_simps [simp]:
  "deliver [] w = w"
  "deliver (n # ns) w = deliver ns (newNetwork n w)"
  by (simp_all add: deliver_def)

lemma deliver_outbox [simp]: "outbox (deliver ns w) = outbox w"
  by (induction ns arbitrary: w) (simp_all add: newNetwork_def)

lemma deliver_option [simp]: "m_option (deliver ns w) = m_option w"
  by (induction ns arbitrary: w) (simp_all add: newNetwork_def)

lemma deliver_state: "m_state (deliver ns w) = (if ns = [] then m_state w else NET_CHANGE)"
  by (induction ns arbitrary: w) (simp_all add: newNetwork_def)

lemma deliver_network: "worker_network (deliver ns w) = last (worker_network w # ns)"
  by (induction ns arbitrary: w) (simp_all add: newNetwork_def)

lemma results_simps [simp]:
  "results [] = []"
  "results (xs @ ys) = results xs @ results ys"
  "results (ResultReady f d # xs) = (f, d) # results xs"
  "results (Started n opt # xs) = results xs"
  "results (Note m # xs) = results xs"
  "results (WriteSgf # xs) = results xs"
  "results (DumpTraining # xs) = results xs"
  "results (GameQuit # xs) = results xs"
  by (simp_all add: results_def)

lemma play_moves_outbox:
  "play_moves ms w = Ended w' \<Longrightarrow> outbox w' = outbox w"
  by (induction ms arbitrary: w) (auto simp: Let_def split: if_splits)

lemma play_moves_outbox_all: "outbox (play_worker (play_moves ms w)) = outbox w"
  by (induction ms arbitrary: w) (simp_all add: play_worker_def Let_def)

lemma play_moves_option: "m_option (play_worker (play_moves ms w)) = m_option w"
  by (induction ms arbitrary: w) (simp_all add: play_worker_def Let_def)

lemma finish_game_outbox: "\<exists>evs. outbox (finish_game g w) = outbox w @ evs"
  by (cases "m_state w") (simp_all add: finish_game_def Let_def)

lemma finish_game_option [simp]: "m_option (finish_game g w) = m_option w"
  by (cases "m_state w") (simp_all add: finish_game_def Let_def)

lemma game_end_outbox:
  assumes "game_end g w = Some w3"
  shows "outbox w3 = outbox w @ [Started (worker_network w) (game_option g w)]"
  using assms
  by (auto simp: game_end_def split: if_splits play.splits dest: play_moves_outbox)

lemma game_end_option: "game_end g w = Some w3 \<Longrightarrow> m_option w3 = m_option w"
  using play_moves_option [of "moves g" "post (Started (worker_network w) (game_option g w)) w"]
  by (auto simp: game_end_def play_worker_def split: if_splits play.splits)

lemma iteration_game_end:
  assumes "game_end g w = Some w3"
  shows "iteration g w =
           (if m_state (deliver (at_teardown g) (finish_game g w3)) \<noteq> FINISHING then None
            else Some Finished,
            deliver (at_teardown g) (finish_game g w3))"
  using assms
  by (auto simp: game_end_def iteration_def Let_def split: if_splits play.splits)

lemma iteration_starts:
  "\<exists>rest. outbox (snd (iteration g w)) =
      outbox w @ Started (worker_network w) (game_option g w) # rest"
proof -
  define w1 where "w1 = post (Started (worker_network w) (game_option g w)) w"
  have o: "outbox (play_worker (play_moves (moves g) w1)) = outbox w1"
    by (rule play_moves_outbox_all)
  show ?thesis
  proof (cases "starts g")
    case False
    then show ?thesis by (simp add: iteration_def Let_def)
  next
    case True
    show ?thesis
    proof (cases "play_moves (moves g) w1")
      case (Ended w2)
      with o have "outbox w2 = outbox w1" by (simp add: play_worker_def)
      moreover obtain evs where
        "outbox (finish_game g (deliver (at_switch g) w2)) = outbox (deliver (at_switch g) w2) @ evs"
        using finish_game_outbox by blast
      ultimately show ?thesis
        using True Ended by (simp add: iteration_def Let_def w1_def [symmetric]) (simp add: w1_def)
    next
      case (Aborted w2)
      with o have "outbox w2 = outbox w1" by (simp add: play_worker_def)
      then show ?thesis
        using True Aborted by (simp add: iteration_def Let_def w1_def [symmetric]) (simp add: w1_def)
    next
      case (Stalled w2)
      with o have "outbox w2 = outbox w1" by (simp add: play_worker_def)
      then show ?thesis
        using True Stalled by (simp add: iteration_def Let_def w1_def [symmetric]) (simp add: w1_def)
    qed
  qed
qed

lemma game_end_one_move:
  "game_end (one_move b nets) w0 =
     Some (deliver nets
       (w0\<lparr>moves_made := 1,
           outbox := [Started ''abc'' '' -r 5 -g -q -d -n -m 30 -w '']\<rparr>))"
  by (simp add: game_end_def game_option_def one_move_def w0_def init_def post_def Let_def)

text \<open>
  Claim C1, as the code has it: for every completed game that the worker finds in state
  RUNNING at the \<^verbatim>\<open>switch\<close>, it emits \<^verbatim>\<open>resultReady\<close> exactly once, whether or not the
  game has a score; the score decides only whether the game record is written and whether
  the training data is written.
\<close>

theorem running_game_reported_once:
  assumes "game_end g w = Some w3" and "m_state w3 = RUNNING"
  shows "results (outbox (snd (iteration g w))) = results (outbox w) @ [(file_name g, seconds g)]
       \<and> (WriteSgf \<in> set (drop (length (outbox w)) (outbox (snd (iteration g w)))) \<longleftrightarrow> score g)
       \<and> (DumpTraining \<in> set (drop (length (outbox w)) (outbox (snd (iteration g w))))
            \<longleftrightarrow> score g)"
  using assms(2) game_end_outbox [OF assms(1)]
  by (simp add: iteration_game_end [OF assms(1)] finish_game_def Let_def)

text \<open>The theorem on a decided game of one move.\<close>

theorem running_game_reported_once_witness:
  "results (outbox (snd (iteration (one_move True []) w0))) = [(''g1'', 60)]
   \<and> WriteSgf \<in> set (outbox (snd (iteration (one_move True []) w0)))
   \<and> DumpTraining \<in> set (outbox (snd (iteration (one_move True []) w0)))"
  using running_game_reported_once [OF game_end_one_move [of True "[]"]]
  by (simp add: w0_def init_def one_move_def)

text \<open>Claim C1 as stated fails on a game without a score: it ends in state RUNNING,
  neither the record nor the training data is written, and it is reported all the same.\<close>

theorem undecided_game_is_reported_counterexample:
  "\<not> score (one_move False [])
   \<and> map_option m_state (game_end (one_move False []) w0) = Some RUNNING
   \<and> results (outbox (snd (iteration (one_move False []) w0))) = [(''g1'', 60)]
   \<and> WriteSgf \<notin> set (outbox (snd (iteration (one_move False []) w0)))
   \<and> DumpTraining \<notin> set (outbox (snd (iteration (one_move False []) w0)))"
  by (simp add: iteration_game_end [OF game_end_one_move] game_end_one_move)
     (simp add: one_move_def w0_def init_def finish_game_def Let_def)

text \<open>
  Claim C7: a worker that finds NET_CHANGE at the \<^verbatim>\<open>switch\<close> sets its state to RUNNING,
  reports nothing for the game, and goes round the loop again: the run on the games
  \<open>g # gs\<close> is the run on \<open>gs\<close> from where this game left the worker, and whatever game
  \<open>g'\<close> comes next is started on the network the worker holds then, the last one
  broadcast to it.
\<close>

theorem net_change_restarts:
  assumes "game_end g w = Some w3" and "m_state w3 = NET_CHANGE"
  shows "m_state (finish_game g w3) = RUNNING
       \<and> results (outbox (snd (iteration g w))) = results (outbox w)
       \<and> run (g # gs) w = run gs (snd (iteration g w))
       \<and> (\<exists>rest. outbox (snd (iteration g' (snd (iteration g w)))) =
             outbox (snd (iteration g w))
             @ Started (last (worker_network w3 # at_teardown g))
                 (game_option g' w) # rest)"
proof -
  have st: "m_state (finish_game g w3) = RUNNING"
    using assms(2) by (simp add: finish_game_def Let_def)
  then have go: "m_state (deliver (at_teardown g) (finish_game g w3)) \<noteq> FINISHING"
    by (simp add: deliver_state)
  have it: "iteration g w = (None, deliver (at_teardown g) (finish_game g w3))"
    using go by (simp add: iteration_game_end [OF assms(1)])
  have nw: "worker_network (finish_game g w3) = worker_network w3"
    using assms(2) by (simp add: finish_game_def Let_def)
  have net: "worker_network (snd (iteration g w)) = last (worker_network w3 # at_teardown g)"
    using nw by (simp add: it deliver_network)
  have opt: "m_option (snd (iteration g w)) = m_option w"
    by (simp add: it game_end_option [OF assms(1)])
  have res: "results (outbox (snd (iteration g w))) = results (outbox w)"
    using assms(2) game_end_outbox [OF assms(1)]
    by (simp add: it finish_game_def Let_def)
  have gopt: "game_option g' (snd (iteration g w)) = game_option g' w"
    using opt by (simp add: game_option_def)
  have "run (g # gs) w = run gs (snd (iteration g w))"
    by (simp add: it)
  with st res iteration_starts [of g' "snd (iteration g w)"] show ?thesis
    by (simp only: net gopt)
qed

text \<open>The theorem on a game during which network def is broadcast, followed by a game
  that is played to its end.\<close>

theorem net_change_restarts_witness:
  "results (outbox (snd (iteration (one_move True [''def'']) w0))) = []
   \<and> m_state (snd (iteration (one_move True [''def'']) w0)) = RUNNING
   \<and> run [one_move True [''def''], one_move True []] w0 =
       run [one_move True []] (snd (iteration (one_move True [''def'']) w0))
   \<and> results (outbox (snd (run [one_move True [''def''], one_move True []] w0))) = [(''g1'', 60)]
   \<and> Started ''def'' '' -r 5 -g -q -d -n -m 30 -w ''
       \<in> set (outbox (snd (run [one_move True [''def''], one_move True []] w0)))"
proof -
  have a: "m_state (deliver [''def'']
       (w0\<lparr>moves_made := 1,
           outbox := [Started ''abc'' '' -r 5 -g -q -d -n -m 30 -w '']\<rparr>)) = NET_CHANGE"
    by (simp add: newNetwork_def)
  note t = net_change_restarts [OF game_end_one_move [of True "[''def'']"] a,
      of "[one_move True []]" "one_move True []"]
  have b: "snd (iteration (one_move True [''def'']) w0) =
      \<lparr>m_state = RUNNING, m_option = '' -g -q -d -n -m 30 -w '', worker_network = ''def'',
       moves_made = 1,
       outbox = [Started ''abc'' '' -r 5 -g -q -d -n -m 30 -w '',
                 Note ''Best Network has changed: restarting.'', Note ''Stopping engine.'',
                 GameQuit]\<rparr>"
    by (simp add: iteration_game_end [OF game_end_one_move])
       (simp add: one_move_def w0_def init_def finish_game_def Let_def newNetwork_def post_def)
  have c: "run [one_move True []] (snd (iteration (one_move True [''def'']) w0)) =
      (Starved, \<lparr>m_state = RUNNING, m_option = '' -g -q -d -n -m 30 -w '',
       worker_network = ''def'', moves_made = 2,
       outbox = [Started ''abc'' '' -r 5 -g -q -d -n -m 30 -w '',
                 Note ''Best Network has changed: restarting.'', Note ''Stopping engine.'',
                 GameQuit, Started ''def'' '' -r 5 -g -q -d -n -m 30 -w '',
                 Note ''Game has ended.'', WriteSgf, DumpTraining, ResultReady ''g1'' 60,
                 Note ''Stopping engine.'', GameQuit]\<rparr>)"
    unfolding b
    by (simp add: iteration_def game_option_def one_move_def finish_game_def Let_def post_def)
  from t have A: "run [one_move True [''def''], one_move True []] w0 =
       run [one_move True []] (snd (iteration (one_move True [''def'']) w0))"
    by blast
  have "results (outbox (snd (iteration (one_move True [''def'']) w0))) = []"
    and "m_state (snd (iteration (one_move True [''def'']) w0)) = RUNNING"
    by (simp_all add: b)
  moreover
  have "results (outbox (snd (run [one_move True [''def''], one_move True []] w0))) = [(''g1'', 60)]"
    and "Started ''def'' '' -r 5 -g -q -d -n -m 30 -w ''
       \<in> set (outbox (snd (run [one_move True [''def''], one_move True []] w0)))"
    unfolding A c by simp_all
  ultimately show ?thesis
    using A by blast
qed

subsection \<open>The result handler\<close>



lemma start_download_games [simp]:
  "m_gamesPlayed (start_download curl s) = m_gamesPlayed s"
  by (simp add: start_download_def Let_def split: option.splits prod.splits)

lemma unpack_download_games [simp]:
  "m_gamesPlayed (unpack_download X curl s) = m_gamesPlayed s"
  by (simp add: unpack_download_def Let_def)













text \<open>A thread that runs alone goes through \<^verbatim>\<open>getResult\<close> in five steps.\<close>

lemma alone_is_getResult:
  assumes "getResult X (calls i) (p, ws) = (Return u, p', ws')" and "i < N"
  shows "exec X calls N [i, i, i, i, i] (start p ws) =
           Some \<lparr>shared = p', pool = ws', holder = None, pcs = (\<lambda>j. AtLock)(i := Done),
                 stopped = False\<rparr>"
  using assms by (simp add: getResult_def thread_step_def start_def)







lemma second_thread_waits:
  "map_option (\<lambda>s. ()) (exec test_ext (\<lambda>i. quiet_call) 2 [0, 1] (start have_abc [w0])) = None"
  "map_option (\<lambda>s. ()) (exec test_ext (\<lambda>i. quiet_call) 2 [0, 0, 1] (start have_abc [w0])) = None"
  by code_simp+


end
